theory Spec2Isabelle
  imports Complex_Main "HOL-Library.Log_Nat"
begin

section \<open>Python numbers\<close>

text \<open>
  The detection response and the report data hold Python numbers: an \<open>int\<close> (unbounded)
  or a \<open>float\<close> (an IEEE 754 binary64). A finite float is held as the rational number it
  denotes. \<open>fl\<close> rounds an exact rational to the nearest binary64 (ties to the even
  significand), with the gradual underflow of the format; overflow to infinity and NaN are
  outside the model (the numbers of this program are confidences, percentages and
  normalised coordinates).
\<close>

datatype pynum = PyInt int | PyFloat rat

fun num_val :: "pynum \<Rightarrow> rat" where
  "num_val (PyInt i) = of_int i"
| "num_val (PyFloat f) = f"

definition round_half_even :: "rat \<Rightarrow> int" where
  "round_half_even q =
     (let f = \<lfloor>q\<rfloor>; r = q - of_int f
      in if r < 1 / 2 then f else if 1 / 2 < r then f + 1 else if even f then f else f + 1)"

definition pow2 :: "int \<Rightarrow> rat" where
  "pow2 e = (if 0 \<le> e then 2 ^ nat e else 1 / 2 ^ nat (- e))"

definition ilog2 :: "rat \<Rightarrow> int" where
  \<comment> \<open>for \<open>0 < q\<close>: the \<open>e\<close> with \<open>2 ^ e \<le> q < 2 ^ (e + 1)\<close>\<close>
  "ilog2 q =
     (let a = fst (quotient_of q); b = snd (quotient_of q); d = bitlen a - bitlen b
      in if pow2 d \<le> q then d else d - 1)"

definition fl :: "rat \<Rightarrow> rat" where
  "fl q =
     (if q = 0 then 0
      else let e = max (ilog2 \<bar>q\<bar>) (- 1022); u = pow2 (e - 52)
           in of_int (round_half_even (q / u)) * u)"

text \<open>\<open>a * b\<close>: an int product is exact; with a float operand the other one is converted
  and the product is rounded once.\<close>

fun py_mul :: "pynum \<Rightarrow> pynum \<Rightarrow> pynum" where
  "py_mul (PyInt a) (PyInt b) = PyInt (a * b)"
| "py_mul a b = PyFloat (fl (fl (num_val a) * fl (num_val b)))"

text \<open>\<open>round(x, n)\<close> with \<open>n \<ge> 0\<close>: an int is returned as it is; a float is rounded to
  \<open>n\<close> decimals on its exact value, half to even, and the decimal is converted back to
  the nearest float (CPython's \<open>double_round\<close>).\<close>

definition float_round :: "rat \<Rightarrow> nat \<Rightarrow> rat" where
  "float_round x n = fl (of_int (round_half_even (x * 10 ^ n)) / 10 ^ n)"

fun py_round :: "pynum \<Rightarrow> nat \<Rightarrow> pynum" where
  "py_round (PyInt i) n = PyInt i"
| "py_round (PyFloat f) n = PyFloat (float_round f n)"

definition py_ge :: "pynum \<Rightarrow> pynum \<Rightarrow> bool" where
  "py_ge a b = (num_val b \<le> num_val a)"

text \<open>The builtin \<open>all\<close>: it stops at the first false element.\<close>

fun py_all :: "bool list \<Rightarrow> bool" where
  "py_all [] = True"
| "py_all (b # bs) = (if b then py_all bs else False)"


section \<open>The text-detection response\<close>

text \<open>
  The response of the text detection is a dict of dicts; every key may be absent, which
  is what the \<open>.get(key, default)\<close> calls of the source provide for. An absent key is
  \<open>None\<close>.
\<close>

record vertex =
  vertex_x :: "pynum option"
  vertex_y :: "pynum option"

record polygon =
  normalized_vertices :: "vertex list option"

record detected_word =
  word_text :: "string option"
  word_confidence :: "pynum option"
  bounding_polygon :: "polygon option"

record image_text_result =
  words :: "detected_word list option"

record detect_text_response =
  image_text :: "image_text_result option"

definition dict_get :: "'a option \<Rightarrow> 'a \<Rightarrow> 'a" where
  "dict_get entry dflt = (case entry of None \<Rightarrow> dflt | Some v \<Rightarrow> v)"

definition response_words :: "detect_text_response \<Rightarrow> detected_word list" where
  \<comment> \<open>\<open>detect_text_response.get("image_text", {}).get("words", [])\<close>\<close>
  "response_words r = (case image_text r of None \<Rightarrow> [] | Some it \<Rightarrow> dict_get (words it) [])"

section \<open>Anomaly evaluation\<close>

definition default_confidence_level :: pynum where
  "default_confidence_level = PyFloat (fl (90 / 100))"

definition all_texts_are_clear_in_the_image :: "detect_text_response \<Rightarrow> pynum \<Rightarrow> bool" where
  "all_texts_are_clear_in_the_image r confidence_level =
     py_all (map (\<lambda>w. py_ge (dict_get (word_confidence w) (PyInt 0)) confidence_level)
                 (response_words r))"

section \<open>Report data\<close>

datatype exn = PyExn string string
  \<comment> \<open>a raised exception: its class and \<open>str(ex)\<close>\<close>

fun str_exn :: "exn \<Rightarrow> string" where
  "str_exn (PyExn cls msg) = msg"

definition list_index :: "'a list \<Rightarrow> nat \<Rightarrow> exn + 'a" where
  "list_index xs i =
     (if i < length xs then Inr (xs ! i)
      else Inl (PyExn ''IndexError'' ''list index out of range''))"

record corner =
  corner_x :: pynum
  corner_y :: pynum

record word_entry =
  entry_word :: "string option"
  entry_confidence :: pynum
  corner1 :: corner
  corner3 :: corner

record image_reference =
  source :: string
  objectName :: string
  namespace :: string
  bucketName :: string
  mediaType :: string
  height :: string

record data_content =
  image_with_anomalies :: image_reference
  data_words :: "word_entry list"

definition word_vertices :: "detected_word \<Rightarrow> vertex list" where
  \<comment> \<open>\<open>word.get("bounding_polygon", {}).get("normalized_vertices", [])\<close>\<close>
  "word_vertices w =
     (case bounding_polygon w of None \<Rightarrow> [] | Some bp \<Rightarrow> dict_get (normalized_vertices bp) [])"

definition word_entry_of :: "detected_word \<Rightarrow> exn + word_entry" where
  "word_entry_of w =
     (case list_index (word_vertices w) 0 of
        Inl ex \<Rightarrow> Inl ex
      | Inr v0 \<Rightarrow>
         (case list_index (word_vertices w) 2 of
            Inl ex \<Rightarrow> Inl ex
          | Inr v2 \<Rightarrow>
              Inr \<lparr> entry_word = word_text w,
                    entry_confidence =
                      py_round (py_mul (dict_get (word_confidence w) (PyInt 0)) (PyInt 100)) 1,
                    corner1 = \<lparr> corner_x = py_round (dict_get (vertex_x v0) (PyInt 0)) 2,
                                corner_y = py_round (dict_get (vertex_y v0) (PyInt 0)) 2 \<rparr>,
                    corner3 = \<lparr> corner_x = py_round (dict_get (vertex_x v2) (PyInt 0)) 2,
                                corner_y = py_round (dict_get (vertex_y v2) (PyInt 0)) 2 \<rparr> \<rparr>))"

text \<open>The list comprehension: the first word that raises ends it.\<close>

fun word_entries :: "detected_word list \<Rightarrow> exn + word_entry list" where
  "word_entries [] = Inr []"
| "word_entries (w # ws) =
     (case word_entry_of w of
        Inl ex \<Rightarrow> Inl ex
      | Inr e \<Rightarrow> (case word_entries ws of Inl ex \<Rightarrow> Inl ex | Inr es \<Rightarrow> Inr (e # es)))"

definition generate_doc_gen_data_content_from_ai_response ::
  "detect_text_response \<Rightarrow> string \<Rightarrow> string \<Rightarrow> string \<Rightarrow> exn + data_content" where
  "generate_doc_gen_data_content_from_ai_response r bucket_name namespace_name object_name =
     (case word_entries (response_words r) of
        Inl ex \<Rightarrow> Inl ex
      | Inr es \<Rightarrow>
          Inr \<lparr> image_with_anomalies =
                  \<lparr> source = ''OBJECT_STORAGE'',
                    objectName = object_name,
                    namespace = namespace_name,
                    bucketName = bucket_name,
                    mediaType = ''image/png'',
                    height = ''450px'' \<rparr>,
                data_words = es \<rparr>)"


section \<open>The collaborators\<close>

text \<open>
  The handler calls the HTTP client, the standard library's table of media types, the
  object storage, the text detection, the function invocation, the clock and the UUID
  generator. What each of them answers is the \<open>world\<close> of one invocation: a call either
  raises (\<open>Inl\<close>) or returns (\<open>Inr\<close>). The helpers of \<open>oci_utils.oci_ai\<close>,
  \<open>oci_utils.oci_functions\<close> and \<open>oci_utils.oci_document_generator\<close> are taken as they are
  called, by their names.
\<close>

type_synonym bytes = string

record par_details =
  par_name :: string
  access_type :: string
  bucket_listing_action :: string
  par_object_name :: string
  time_expires :: int

record par_data =
  full_path :: "string option"

record par_response =
  par_status :: int
  par_response_data :: "par_data option"

datatype fn_body =
    Undecodable exn
    \<comment> \<open>\<open>response.content.decode()\<close> raises\<close>
  | NotAnObject exn
    \<comment> \<open>the text decodes, and \<open>json.loads\<close> or \<open>.get("code")\<close> raises on it\<close>
  | JsonObject "int option"
    \<comment> \<open>a JSON object, with its entry \<open>code\<close> when there is one\<close>

record fn_response =
  fn_status_code :: int
  fn_content :: fn_body

type_synonym fn_payload = string

record world =
  new_object_storage_client :: "exn + unit"
  requests_get :: "string \<Rightarrow> exn + (int \<times> bytes)"
  guess_type :: "string \<Rightarrow> string option"
  uuid4 :: string
  put_object :: "string \<Rightarrow> string \<Rightarrow> string \<Rightarrow> bytes \<Rightarrow> string option \<Rightarrow> exn + int"
  detect_text_from_oject_storage_image ::
    "string \<Rightarrow> string \<Rightarrow> string \<Rightarrow> string \<Rightarrow> exn + detect_text_response"
  prepare_document_generator_payload ::
    "data_content \<Rightarrow> string \<Rightarrow> string \<Rightarrow> string \<Rightarrow> string \<Rightarrow> string \<Rightarrow> fn_payload"
  invoke_function :: "string \<Rightarrow> fn_payload \<Rightarrow> exn + fn_response"
  build_output_pdf_name :: "string \<Rightarrow> string"
  utcnow :: int
  create_preauthenticated_request :: "string \<Rightarrow> string \<Rightarrow> par_details \<Rightarrow> exn + par_response"

text \<open>A run is observed through the calls it makes and the errors it logs, in order.
  The informational log lines of the happy path are not recorded.\<close>

datatype event =
    Log string string
  | CreateObjectStorageClient
  | RequestsGet string
  | PutObject string string string
  | DetectText string string string
  | GenerateDocGenData string
  | InvokeFunction string
  | CreatePar string string string

section \<open>Strings\<close>

fun digits_of :: "nat \<Rightarrow> string" where
  "digits_of n =
     (if n < 10 then [char_of (48 + n)] else digits_of (n div 10) @ [char_of (48 + n mod 10)])"

declare digits_of.simps [simp del]

definition str_int :: "int \<Rightarrow> string" where
  "str_int i = (if i < 0 then CHR ''-'' # digits_of (nat (- i)) else digits_of (nat i))"

definition str_code :: "int option \<Rightarrow> string" where
  "str_code c = (case c of None \<Rightarrow> ''None'' | Some i \<Rightarrow> str_int i)"

definition sq :: string where
  "sq = [CHR 0x27]"

definition dq :: string where
  "dq = [CHR 0x22]"

definition last_segment :: "string \<Rightarrow> string" where
  \<comment> \<open>\<open>url.split('/')[-1]\<close>\<close>
  "last_segment url = rev (takeWhile (\<lambda>c. c \<noteq> CHR ''/'') (rev url))"

section \<open>oci_utils.url_utils\<close>

definition get_image_content_type :: "world \<Rightarrow> string \<Rightarrow> string option" where
  "get_image_content_type w filename =
     (let mime_type = guess_type w filename
      in if mime_type = Some ''image/jpeg'' then Some ''image/jpeg''
         else if mime_type = Some ''image/png'' then Some ''image/png''
         else None)"

definition get_data_from_url :: "world \<Rightarrow> string \<Rightarrow> exn + (int \<times> bytes \<times> string)" where
  "get_data_from_url w url =
     (let file_name = last_segment url
      in case requests_get w url of
           Inl ex \<Rightarrow> Inl ex
         | Inr (status, content) \<Rightarrow> Inr (status, content, file_name))"

definition get_image_data_from_url ::
  "world \<Rightarrow> string \<Rightarrow> exn + (int \<times> bytes \<times> string \<times> string option)" where
  "get_image_data_from_url w url =
     (case get_data_from_url w url of
        Inl ex \<Rightarrow> Inl ex
      | Inr (status, content, file_name) \<Rightarrow>
          Inr (status, content, file_name, get_image_content_type w file_name))"

section \<open>oci_utils.oci_object_storage\<close>

definition create_object_storage_client :: "world \<Rightarrow> exn + unit" where
  "create_object_storage_client w = new_object_storage_client w"

definition put_file_to_object_storage_image ::
  "world \<Rightarrow> bytes \<Rightarrow> string \<Rightarrow> string \<Rightarrow> string \<Rightarrow> string option \<Rightarrow> exn + int" where
  "put_file_to_object_storage_image w file_content namespace_name bucket_name object_name content_type =
     put_object w namespace_name bucket_name object_name file_content content_type"

definition create_read_only_object_par ::
  "world \<Rightarrow> string \<Rightarrow> string \<Rightarrow> string \<Rightarrow> string \<Rightarrow> int \<Rightarrow> exn + (int \<times> string option)" where
  "create_read_only_object_par w name namespace_name bucket_name object_name object_expiry_time =
     (let details = \<lparr> par_name = name,
                       access_type = ''ObjectRead'',
                       bucket_listing_action = ''Deny'',
                       par_object_name = object_name,
                       time_expires = object_expiry_time \<rparr>
      in case create_preauthenticated_request w namespace_name bucket_name details of
           Inl ex \<Rightarrow> Inl ex
         | Inr r \<Rightarrow>
             Inr (par_status r,
                  (case par_response_data r of
                     None \<Rightarrow> None
                   | Some d \<Rightarrow>
                      (case full_path d of
                         None \<Rightarrow> None
                       | Some p \<Rightarrow> if p = [] then None else Some p))))"

section \<open>The handler\<close>

text \<open>
  The response of the function: its status code, the value given to \<open>json.dumps\<close> for
  the body, and the headers.
\<close>

datatype json = JNull | JString string | JObject "(string \<times> json) list"

record response =
  status_code :: int
  response_data :: json
  headers :: "(string \<times> string) list"

text \<open>The request body: \<open>json.loads(data.getvalue())\<close> and \<open>payload["url"]\<close> either
  raise or give the URL.\<close>

datatype request_body = NoUrl exn | UrlPayload string

type_synonym run = "event list \<times> (exn + response)"

definition compartment_id :: string where
  "compartment_id = ''ocid1.compartment.oc1..zzz''"

definition fn_ocid :: string where
  "fn_ocid = ''ocid1.fnfunc.oc1.iad..zzz''"

definition fontfile_name :: string where
  "fontfile_name = ''part3/Monoton.zip''"

definition template_name :: string where
  "template_name = ''part3/TextAnomalyTemplate.docx''"

definition prepare_response :: "json \<Rightarrow> int \<Rightarrow> response" where
  "prepare_response response_payload code =
     \<lparr> status_code = code,
       response_data = response_payload,
       headers = [(''Content-Type'', ''application/json'')] \<rparr>"

definition generate_error_response :: "event list \<Rightarrow> string \<Rightarrow> run" where
  "generate_error_response tr error_message =
     (tr @ [Log ''ERROR'' error_message],
      Inr (prepare_response (JObject [(''message'', JString error_message)]) 400))"

definition reraise :: "event list \<Rightarrow> exn \<Rightarrow> run" where
  \<comment> \<open>the \<open>except Exception\<close> clause: log, then \<open>raise\<close>\<close>
  "reraise tr ex = (tr @ [Log ''INFO'' (''Error in handler: '' @ str_exn ex)], Inl ex)"

definition par_stage :: "world \<Rightarrow> event list \<Rightarrow> string \<Rightarrow> string \<Rightarrow> string \<Rightarrow> string \<Rightarrow> run" where
  \<comment> \<open>steps 7 and 8 of the handler\<close>
  "par_stage w tr url namespace_name bucket_name image_name =
     (let pdf_name = build_output_pdf_name w image_name;
          tr7 = tr @ [CreatePar namespace_name bucket_name pdf_name]
      in case create_read_only_object_par w ''PAR_for_report'' namespace_name bucket_name pdf_name
                (utcnow w + 3600) of
           Inl ex \<Rightarrow> reraise tr7 ex
         | Inr (par_status_code, par_full_path) \<Rightarrow>
             if par_status_code \<noteq> 200
             then generate_error_response tr7
                    (''PAR generation error. Status code: '' @ str_int par_status_code)
             else (tr7,
                   Inr (prepare_response
                          (JObject [(''inputUrl'', JString url),
                                    (''reportWithAnomalies'',
                                     (case par_full_path of None \<Rightarrow> JNull | Some p \<Rightarrow> JString p))])
                          200)))"

definition report_stage ::
  "world \<Rightarrow> event list \<Rightarrow> string \<Rightarrow> string \<Rightarrow> string \<Rightarrow> string \<Rightarrow> detect_text_response \<Rightarrow> run" where
  \<comment> \<open>step 6 of the handler, and on to step 7\<close>
  "report_stage w tr url namespace_name bucket_name image_name detect_response =
     (let tr5 = tr @ [GenerateDocGenData image_name]
      in case generate_doc_gen_data_content_from_ai_response detect_response bucket_name
                namespace_name image_name of
           Inl ex \<Rightarrow> reraise tr5 ex
         | Inr content \<Rightarrow>
            (let doc_gen_fn_payload =
                   prepare_document_generator_payload w content namespace_name bucket_name
                     image_name fontfile_name template_name;
                 tr6 = tr5 @ [InvokeFunction fn_ocid]
             in case invoke_function w fn_ocid doc_gen_fn_payload of
                  Inl ex \<Rightarrow> reraise tr6 ex
                | Inr resp \<Rightarrow>
                   (case fn_content resp of
                      Undecodable ex \<Rightarrow> reraise tr6 ex
                    | NotAnObject ex \<Rightarrow>
                        if fn_status_code resp = 200 then reraise tr6 ex
                        else par_stage w tr6 url namespace_name bucket_name image_name
                    | JsonObject app_response_code \<Rightarrow>
                        if fn_status_code resp = 200
                        then (if app_response_code = Some 200
                              then par_stage w tr6 url namespace_name bucket_name image_name
                              else generate_error_response tr6
                                     (''Document generation failure: '' @ sq
                                      @ str_code app_response_code @ sq
                                      @ ''. See Application Log''))
                        else par_stage w tr6 url namespace_name bucket_name image_name)))"

definition handler :: "world \<Rightarrow> request_body option \<Rightarrow> run" where
  "handler w data =
     (case data of
        None \<Rightarrow>
          ([Log ''ERROR'' ''No data provided''],
           Inr (prepare_response (JString ''No data provided'') 200))
      | Some (NoUrl ex) \<Rightarrow> reraise [] ex
      | Some (UrlPayload url) \<Rightarrow>
         (let bucket_name = ''fun_oci_functions_bucket'';
              namespace_name = ''idsvv7k2bdum'';
              tr1 = [CreateObjectStorageClient]
          in case create_object_storage_client w of
               Inl ex \<Rightarrow> reraise tr1 ex
             | Inr client \<Rightarrow>
                (let tr2 = tr1 @ [RequestsGet url]
                 in case get_image_data_from_url w url of
                      Inl ex \<Rightarrow> reraise tr2 ex
                    | Inr (url_status_code, file_content, file_name, content_type) \<Rightarrow>
                       if url_status_code \<noteq> 200
                       then generate_error_response tr2
                              (''Failed to retrieve the file from '' @ sq @ url @ sq
                               @ ''. Status code: '' @ str_int url_status_code)
                       else if content_type \<noteq> Some ''image/jpeg'' \<and> content_type \<noteq> Some ''image/png''
                       then generate_error_response tr2
                              (''Failed to retrieve a jpeg or png image from '' @ sq @ url @ sq @ ''.'')
                       else
                        (let image_name = ''part3/'' @ uuid4 w @ ''-'' @ file_name;
                             tr3 = tr2 @ [PutObject namespace_name bucket_name image_name]
                         in case put_file_to_object_storage_image w file_content namespace_name
                                   bucket_name image_name content_type of
                              Inl ex \<Rightarrow> reraise tr3 ex
                            | Inr object_storage_response \<Rightarrow>
                               if object_storage_response \<noteq> 200
                               then generate_error_response tr3
                                      (''Image '' @ image_name @ '' storing in Bucket '' @ bucket_name
                                       @ '' failed with status code ''
                                       @ str_int object_storage_response @ ''.'')
                               else
                                (let tr4 = tr3 @ [DetectText namespace_name bucket_name image_name]
                                 in case detect_text_from_oject_storage_image w compartment_id
                                           namespace_name bucket_name image_name of
                                      Inl ex \<Rightarrow> reraise tr4 ex
                                    | Inr detect_response \<Rightarrow>
                                       if all_texts_are_clear_in_the_image detect_response
                                            default_confidence_level
                                       then (tr4,
                                             Inr (prepare_response
                                                    (JObject [(''message'',
                                                       JString (''All Words are clear in Image: '' @ dq
                                                         @ image_name @ dq @ '' from Bucket: '' @ dq
                                                         @ bucket_name @ dq @ '' in Namespace: '' @ dq
                                                         @ namespace_name @ dq))])
                                                    204))
                                       else report_stage w tr4 url namespace_name bucket_name
                                              image_name detect_response)))))"


section \<open>Observing a run\<close>

fun is_upload :: "event \<Rightarrow> bool" where
  "is_upload (PutObject n b obj) = True"
| "is_upload ev = False"

fun is_detection :: "event \<Rightarrow> bool" where
  "is_detection (DetectText n b obj) = True"
| "is_detection ev = False"

fun is_report_build :: "event \<Rightarrow> bool" where
  "is_report_build (GenerateDocGenData obj) = True"
| "is_report_build ev = False"

fun is_report_invocation :: "event \<Rightarrow> bool" where
  "is_report_invocation (InvokeFunction f) = True"
| "is_report_invocation ev = False"

fun is_par_creation :: "event \<Rightarrow> bool" where
  "is_par_creation (CreatePar n b obj) = True"
| "is_par_creation ev = False"

section \<open>The standard library's media types\<close>

text \<open>
  \<open>mimetypes.guess_type(name)\<close>, the type it returns, as the standard library computes it for
  a name without \<open>:\<close> and without \<open>/\<close> (such a name has no URL scheme, so it is taken as a
  path): the extension is split off, a compound suffix (\<open>.tgz\<close>) is expanded, an encoding
  suffix (\<open>.gz\<close>) is dropped, and the extension, in lower case, is looked up in the table of
  media types. The table in effect is the built-in one, extended by the \<open>mime.types\<close> files
  of the system: it is a parameter.
\<close>

definition splitext :: "string \<Rightarrow> string \<times> string" where
  \<comment> \<open>\<open>posixpath.splitext\<close>: the extension starts at the last dot, unless only dots stand
      before it\<close>
  "splitext p =
     (let ext = rev (takeWhile (\<lambda>c. c \<noteq> CHR ''.'') (rev p));
          base = take (length p - length ext - 1) p
      in if CHR ''.'' \<in> set p \<and> list_ex (\<lambda>c. c \<noteq> CHR ''.'') base
         then (base, CHR ''.'' # ext) else (p, []))"

definition lower_char :: "char \<Rightarrow> char" where
  "lower_char c =
     (let n = (of_char c :: nat) in if 65 \<le> n \<and> n \<le> 90 then char_of (n + 32) else c)"

definition str_lower :: "string \<Rightarrow> string" where
  \<comment> \<open>\<open>str.lower()\<close> on ASCII text\<close>
  "str_lower s = map lower_char s"

definition suffix_map :: "(string \<times> string) list" where
  "suffix_map =
     [(''.svgz'', ''.svg.gz''), (''.tgz'', ''.tar.gz''), (''.taz'', ''.tar.gz''),
      (''.tz'', ''.tar.gz''), (''.tbz2'', ''.tar.bz2''), (''.txz'', ''.tar.xz'')]"

definition encodings_map :: "(string \<times> string) list" where
  "encodings_map =
     [(''.gz'', ''gzip''), (''.Z'', ''compress''), (''.bz2'', ''bzip2''), (''.xz'', ''xz''),
      (''.br'', ''br'')]"

text \<open>The extension that is looked up. The library expands compound suffixes in a loop;
  an expansion ends in \<open>.gz\<close>, \<open>.bz2\<close> or \<open>.xz\<close>, none of them compound, so the loop runs
  once at most.\<close>

definition type_extension :: "string \<Rightarrow> string" where
  "type_extension name =
     (let (base1, ext1) = splitext name;
          (base2, ext2) = (case map_of suffix_map (str_lower ext1) of
                             None \<Rightarrow> (base1, ext1)
                           | Some s \<Rightarrow> splitext (base1 @ s));
          ext3 = (case map_of encodings_map ext2 of
                    None \<Rightarrow> ext2
                  | Some encoding \<Rightarrow> snd (splitext base2))
      in str_lower ext3)"

definition mimetypes_guess_type :: "(string \<Rightarrow> string option) \<Rightarrow> string \<Rightarrow> string option" where
  "mimetypes_guess_type types_map name = types_map (type_extension name)"


text \<open>The built-in table of the library (\<open>_types_map_default\<close> of CPython 3.11).\<close>

definition builtin_types :: "(string \<times> string) list" where
  "builtin_types =
     [(''.js'', ''application/javascript''),
      (''.mjs'', ''application/javascript''),
      (''.json'', ''application/json''),
      (''.webmanifest'', ''application/manifest+json''),
      (''.doc'', ''application/msword''),
      (''.dot'', ''application/msword''),
      (''.wiz'', ''application/msword''),
      (''.nq'', ''application/n-quads''),
      (''.nt'', ''application/n-triples''),
      (''.bin'', ''application/octet-stream''),
      (''.a'', ''application/octet-stream''),
      (''.dll'', ''application/octet-stream''),
      (''.exe'', ''application/octet-stream''),
      (''.o'', ''application/octet-stream''),
      (''.obj'', ''application/octet-stream''),
      (''.so'', ''application/octet-stream''),
      (''.oda'', ''application/oda''),
      (''.pdf'', ''application/pdf''),
      (''.p7c'', ''application/pkcs7-mime''),
      (''.ps'', ''application/postscript''),
      (''.ai'', ''application/postscript''),
      (''.eps'', ''application/postscript''),
      (''.trig'', ''application/trig''),
      (''.m3u'', ''application/vnd.apple.mpegurl''),
      (''.m3u8'', ''application/vnd.apple.mpegurl''),
      (''.xls'', ''application/vnd.ms-excel''),
      (''.xlb'', ''application/vnd.ms-excel''),
      (''.ppt'', ''application/vnd.ms-powerpoint''),
      (''.pot'', ''application/vnd.ms-powerpoint''),
      (''.ppa'', ''application/vnd.ms-powerpoint''),
      (''.pps'', ''application/vnd.ms-powerpoint''),
      (''.pwz'', ''application/vnd.ms-powerpoint''),
      (''.wasm'', ''application/wasm''),
      (''.bcpio'', ''application/x-bcpio''),
      (''.cpio'', ''application/x-cpio''),
      (''.csh'', ''application/x-csh''),
      (''.dvi'', ''application/x-dvi''),
      (''.gtar'', ''application/x-gtar''),
      (''.hdf'', ''application/x-hdf''),
      (''.h5'', ''application/x-hdf5''),
      (''.latex'', ''application/x-latex''),
      (''.mif'', ''application/x-mif''),
      (''.cdf'', ''application/x-netcdf''),
      (''.nc'', ''application/x-netcdf''),
      (''.p12'', ''application/x-pkcs12''),
      (''.pfx'', ''application/x-pkcs12''),
      (''.ram'', ''application/x-pn-realaudio''),
      (''.pyc'', ''application/x-python-code''),
      (''.pyo'', ''application/x-python-code''),
      (''.sh'', ''application/x-sh''),
      (''.shar'', ''application/x-shar''),
      (''.swf'', ''application/x-shockwave-flash''),
      (''.sv4cpio'', ''application/x-sv4cpio''),
      (''.sv4crc'', ''application/x-sv4crc''),
      (''.tar'', ''application/x-tar''),
      (''.tcl'', ''application/x-tcl''),
      (''.tex'', ''application/x-tex''),
      (''.texi'', ''application/x-texinfo''),
      (''.texinfo'', ''application/x-texinfo''),
      (''.roff'', ''application/x-troff''),
      (''.t'', ''application/x-troff''),
      (''.tr'', ''application/x-troff''),
      (''.man'', ''application/x-troff-man''),
      (''.me'', ''application/x-troff-me''),
      (''.ms'', ''application/x-troff-ms''),
      (''.ustar'', ''application/x-ustar''),
      (''.src'', ''application/x-wais-source''),
      (''.xsl'', ''application/xml''),
      (''.rdf'', ''application/xml''),
      (''.wsdl'', ''application/xml''),
      (''.xpdl'', ''application/xml''),
      (''.zip'', ''application/zip''),
      (''.3gp'', ''audio/3gpp''),
      (''.3gpp'', ''audio/3gpp''),
      (''.3g2'', ''audio/3gpp2''),
      (''.3gpp2'', ''audio/3gpp2''),
      (''.aac'', ''audio/aac''),
      (''.adts'', ''audio/aac''),
      (''.loas'', ''audio/aac''),
      (''.ass'', ''audio/aac''),
      (''.au'', ''audio/basic''),
      (''.snd'', ''audio/basic''),
      (''.mp3'', ''audio/mpeg''),
      (''.mp2'', ''audio/mpeg''),
      (''.opus'', ''audio/opus''),
      (''.aif'', ''audio/x-aiff''),
      (''.aifc'', ''audio/x-aiff''),
      (''.aiff'', ''audio/x-aiff''),
      (''.ra'', ''audio/x-pn-realaudio''),
      (''.wav'', ''audio/x-wav''),
      (''.avif'', ''image/avif''),
      (''.bmp'', ''image/bmp''),
      (''.gif'', ''image/gif''),
      (''.ief'', ''image/ief''),
      (''.jpg'', ''image/jpeg''),
      (''.jpe'', ''image/jpeg''),
      (''.jpeg'', ''image/jpeg''),
      (''.heic'', ''image/heic''),
      (''.heif'', ''image/heif''),
      (''.png'', ''image/png''),
      (''.svg'', ''image/svg+xml''),
      (''.tiff'', ''image/tiff''),
      (''.tif'', ''image/tiff''),
      (''.ico'', ''image/vnd.microsoft.icon''),
      (''.ras'', ''image/x-cmu-raster''),
      (''.pnm'', ''image/x-portable-anymap''),
      (''.pbm'', ''image/x-portable-bitmap''),
      (''.pgm'', ''image/x-portable-graymap''),
      (''.ppm'', ''image/x-portable-pixmap''),
      (''.rgb'', ''image/x-rgb''),
      (''.xbm'', ''image/x-xbitmap''),
      (''.xpm'', ''image/x-xpixmap''),
      (''.xwd'', ''image/x-xwindowdump''),
      (''.eml'', ''message/rfc822''),
      (''.mht'', ''message/rfc822''),
      (''.mhtml'', ''message/rfc822''),
      (''.nws'', ''message/rfc822''),
      (''.css'', ''text/css''),
      (''.csv'', ''text/csv''),
      (''.html'', ''text/html''),
      (''.htm'', ''text/html''),
      (''.n3'', ''text/n3''),
      (''.txt'', ''text/plain''),
      (''.bat'', ''text/plain''),
      (''.c'', ''text/plain''),
      (''.h'', ''text/plain''),
      (''.ksh'', ''text/plain''),
      (''.pl'', ''text/plain''),
      (''.srt'', ''text/plain''),
      (''.rtx'', ''text/richtext''),
      (''.tsv'', ''text/tab-separated-values''),
      (''.vtt'', ''text/vtt''),
      (''.py'', ''text/x-python''),
      (''.etx'', ''text/x-setext''),
      (''.sgm'', ''text/x-sgml''),
      (''.sgml'', ''text/x-sgml''),
      (''.vcf'', ''text/x-vcard''),
      (''.xml'', ''text/xml''),
      (''.mp4'', ''video/mp4''),
      (''.mpeg'', ''video/mpeg''),
      (''.m1v'', ''video/mpeg''),
      (''.mpa'', ''video/mpeg''),
      (''.mpe'', ''video/mpeg''),
      (''.mpg'', ''video/mpeg''),
      (''.mov'', ''video/quicktime''),
      (''.qt'', ''video/quicktime''),
      (''.webm'', ''video/webm''),
      (''.avi'', ''video/x-msvideo''),
      (''.movie'', ''video/x-sgi-movie'')]"

definition builtin_types_map :: "string \<Rightarrow> string option" where
  "builtin_types_map = map_of builtin_types"

section \<open>A world to run the handler in\<close>

text \<open>
  The concrete inputs of the examples below: detected words with four vertices each, and a
  world that guesses media types as the standard library does with its built-in table, and
  whose fetch status, detection result and document generator response are chosen by the
  example.
\<close>

definition demo_word :: "string \<Rightarrow> pynum option \<Rightarrow> detected_word" where
  "demo_word t c =
     \<lparr> word_text = Some t,
       word_confidence = c,
       bounding_polygon = Some \<lparr> normalized_vertices = Some
         [\<lparr> vertex_x = Some (PyFloat (fl (1 / 10))), vertex_y = Some (PyFloat (fl (2 / 10))) \<rparr>,
          \<lparr> vertex_x = Some (PyFloat (fl (3 / 10))), vertex_y = Some (PyFloat (fl (2 / 10))) \<rparr>,
          \<lparr> vertex_x = Some (PyFloat (fl (3 / 10))), vertex_y = Some (PyFloat (fl (4 / 10))) \<rparr>,
          \<lparr> vertex_x = Some (PyFloat (fl (1 / 10))), vertex_y = Some (PyFloat (fl (4 / 10))) \<rparr>] \<rparr> \<rparr>"

definition demo_detection :: "pynum option list \<Rightarrow> detect_text_response" where
  "demo_detection cs = \<lparr> image_text = Some \<lparr> words = Some (map (demo_word ''word'') cs) \<rparr> \<rparr>"

definition demo_world :: "int \<Rightarrow> exn + detect_text_response \<Rightarrow> fn_response \<Rightarrow> world" where
  "demo_world fetch_status detection fn_resp =
     \<lparr> new_object_storage_client = Inr (),
       requests_get = (\<lambda>url. Inr (fetch_status, ''bytes'')),
       guess_type = mimetypes_guess_type builtin_types_map,
       uuid4 = ''0000'',
       put_object = (\<lambda>n b obj content ct. Inr 200),
       detect_text_from_oject_storage_image = (\<lambda>c n b obj. detection),
       prepare_document_generator_payload = (\<lambda>content n b obj font template. ''payload''),
       invoke_function = (\<lambda>f p. Inr fn_resp),
       build_output_pdf_name = (\<lambda>obj. obj @ ''.pdf''),
       utcnow = 0,
       create_preauthenticated_request =
         (\<lambda>n b details. Inr \<lparr> par_status = 200,
                               par_response_data = Some \<lparr> full_path = Some ''https://par/report'' \<rparr> \<rparr>) \<rparr>"


section \<open>The anomaly evaluator\<close>

lemma py_all_iff: "py_all bs = (\<forall>b \<in> set bs. b)"
  by (induction bs) auto

text \<open>
  C3. For every detection result and every threshold, the evaluator answers "clear"
  exactly when the confidence of every word (0 for a word without one) is at least the
  threshold. So it is clear for a result without words, and anomalous as soon as one word
  is strictly below the threshold: with threshold 0.90 and confidences 0.95, 0.91, 0.89 the
  verdict is anomalous.
\<close>

theorem all_texts_are_clear_iff:
  "all_texts_are_clear_in_the_image r t =
     (\<forall>w \<in> set (response_words r). num_val t \<le> num_val (dict_get (word_confidence w) (PyInt 0)))"
  by (simp add: all_texts_are_clear_in_the_image_def py_all_iff py_ge_def)

theorem all_texts_are_clear_iff_witness:
  "all_texts_are_clear_in_the_image (demo_detection []) (PyFloat (fl (90 / 100)))
   \<and> \<not> all_texts_are_clear_in_the_image
         (demo_detection [Some (PyFloat (fl (95 / 100))), Some (PyFloat (fl (91 / 100))),
                          Some (PyFloat (fl (89 / 100)))])
         (PyFloat (fl (90 / 100)))"
proof -
  have a: "response_words (demo_detection []) = []"
    by (simp add: response_words_def demo_detection_def dict_get_def)
  have b: "\<exists>w \<in> set (response_words (demo_detection [Some (PyFloat (fl (95 / 100))),
              Some (PyFloat (fl (91 / 100))), Some (PyFloat (fl (89 / 100)))])).
            \<not> num_val (PyFloat (fl (90 / 100))) \<le> num_val (dict_get (word_confidence w) (PyInt 0))"
    by code_simp
  show ?thesis
    using a b all_texts_are_clear_iff [of "demo_detection []" "PyFloat (fl (90 / 100))"]
      all_texts_are_clear_iff [of "demo_detection [Some (PyFloat (fl (95 / 100))),
              Some (PyFloat (fl (91 / 100))), Some (PyFloat (fl (89 / 100)))]" "PyFloat (fl (90 / 100))"]
    by simp
qed


section \<open>The report data builder\<close>

lemma word_entries_nth:
  "word_entries ws = Inr es \<Longrightarrow>
     length es = length ws \<and> (\<forall>i < length ws. word_entry_of (ws ! i) = Inr (es ! i))"
proof (induction ws arbitrary: es)
  case Nil
  then show ?case by simp
next
  case (Cons w ws)
  from Cons.prems obtain e es' where e: "word_entry_of w = Inr e"
    and es': "word_entries ws = Inr es'" and es: "es = e # es'"
    by (auto split: sum.splits)
  from Cons.IH [OF es'] have len: "length es' = length ws"
    and nth: "\<forall>i < length ws. word_entry_of (ws ! i) = Inr (es' ! i)" by simp_all
  show ?case
  proof (intro conjI allI impI)
    show "length es = length (w # ws)" using len es by simp
  next
    fix i assume "i < length (w # ws)"
    then show "word_entry_of ((w # ws) ! i) = Inr (es ! i)"
      using e nth es by (cases i) simp_all
  qed
qed

lemma word_entry_of_confidence:
  "word_entry_of w = Inr e \<Longrightarrow>
     entry_confidence e = py_round (py_mul (dict_get (word_confidence w) (PyInt 0)) (PyInt 100)) 1"
  by (auto simp: word_entry_of_def split: sum.splits)

lemma word_entry_of_word:
  "word_entry_of w = Inr e \<Longrightarrow> entry_word e = word_text w"
  by (auto simp: word_entry_of_def split: sum.splits)

text \<open>
  C9. Whatever the detection result and the storage coordinates, the report data that the
  builder returns declares the stored image with media type "image/png" and height "450px".
  The builder takes no content type: an image uploaded as image/jpeg is declared as
  image/png too.
\<close>

theorem report_media_type_is_png:
  assumes "generate_doc_gen_data_content_from_ai_response r bucket_name namespace_name object_name = Inr c"
  shows "mediaType (image_with_anomalies c) = ''image/png'' \<and> height (image_with_anomalies c) = ''450px''"
  using assms
  by (auto simp: generate_doc_gen_data_content_from_ai_response_def split: sum.splits)

theorem report_media_type_is_png_witness:
  "\<exists>c. generate_doc_gen_data_content_from_ai_response
          (demo_detection [Some (PyFloat (fl (5 / 10)))]) ''bucket'' ''ns'' ''part3/0000-photo.jpg'' = Inr c
       \<and> mediaType (image_with_anomalies c) = ''image/png''
       \<and> height (image_with_anomalies c) = ''450px''"
proof -
  have "\<exists>c. generate_doc_gen_data_content_from_ai_response
          (demo_detection [Some (PyFloat (fl (5 / 10)))]) ''bucket'' ''ns'' ''part3/0000-photo.jpg'' = Inr c"
    by (simp add: generate_doc_gen_data_content_from_ai_response_def demo_detection_def
        response_words_def dict_get_def demo_word_def word_entry_of_def word_vertices_def
        list_index_def)
  then obtain c where c: "generate_doc_gen_data_content_from_ai_response
          (demo_detection [Some (PyFloat (fl (5 / 10)))]) ''bucket'' ''ns'' ''part3/0000-photo.jpg'' = Inr c"
    by blast
  from report_media_type_is_png [OF c] c show ?thesis by blast
qed

text \<open>
  C10. A detected word without a confidence entry is given the confidence 0 by the evaluator
  and by the builder: with a positive threshold the verdict is "anomalous", and in the report
  data the word stands at its position with the percentage 0.
\<close>

theorem missing_confidence_counts_as_zero:
  assumes "i < length (response_words r)"
    and "word_confidence (response_words r ! i) = None"
  shows "(0 < num_val t \<longrightarrow> \<not> all_texts_are_clear_in_the_image r t)
       \<and> (\<forall>c. generate_doc_gen_data_content_from_ai_response r bucket_name namespace_name object_name = Inr c
              \<longrightarrow> i < length (data_words c)
                  \<and> entry_word (data_words c ! i) = word_text (response_words r ! i)
                  \<and> num_val (entry_confidence (data_words c ! i)) = 0)"
proof (intro conjI allI impI)
  assume t: "0 < num_val t"
  have "response_words r ! i \<in> set (response_words r)" using assms(1) by simp
  moreover have "\<not> py_ge (dict_get (word_confidence (response_words r ! i)) (PyInt 0)) t"
    using t assms(2) by (simp add: py_ge_def dict_get_def)
  ultimately show "\<not> all_texts_are_clear_in_the_image r t"
    by (auto simp: all_texts_are_clear_in_the_image_def py_all_iff)
next
  fix c
  assume c: "generate_doc_gen_data_content_from_ai_response r bucket_name namespace_name object_name = Inr c"
  then have es: "word_entries (response_words r) = Inr (data_words c)"
    by (auto simp: generate_doc_gen_data_content_from_ai_response_def split: sum.splits)
  from word_entries_nth [OF es] assms(1)
  have len: "length (data_words c) = length (response_words r)"
    and e: "word_entry_of (response_words r ! i) = Inr (data_words c ! i)" by simp_all
  show "i < length (data_words c)" using len assms(1) by simp
  show "entry_word (data_words c ! i) = word_text (response_words r ! i)"
    using word_entry_of_word [OF e] .
  show "num_val (entry_confidence (data_words c ! i)) = 0"
    using word_entry_of_confidence [OF e] assms(2) by (simp add: dict_get_def)
qed

theorem missing_confidence_counts_as_zero_witness:
  "\<not> all_texts_are_clear_in_the_image (demo_detection [None]) default_confidence_level
   \<and> (\<exists>c. generate_doc_gen_data_content_from_ai_response (demo_detection [None])
              ''bucket'' ''ns'' ''part3/0000-photo.png'' = Inr c
          \<and> num_val (entry_confidence (data_words c ! 0)) = 0)"
proof -
  have h1: "0 < length (response_words (demo_detection [None]))"
    by (simp add: response_words_def demo_detection_def dict_get_def)
  have h2: "word_confidence (response_words (demo_detection [None]) ! 0) = None"
    by (simp add: response_words_def demo_detection_def dict_get_def demo_word_def)
  have t: "0 < num_val default_confidence_level"
    by code_simp
  have "\<exists>c. generate_doc_gen_data_content_from_ai_response (demo_detection [None])
              ''bucket'' ''ns'' ''part3/0000-photo.png'' = Inr c"
    by (simp add: generate_doc_gen_data_content_from_ai_response_def demo_detection_def
        response_words_def dict_get_def demo_word_def word_entry_of_def word_vertices_def
        list_index_def)
  then obtain c where c: "generate_doc_gen_data_content_from_ai_response (demo_detection [None])
              ''bucket'' ''ns'' ''part3/0000-photo.png'' = Inr c"
    by blast
  from missing_confidence_counts_as_zero [OF h1 h2, where t = default_confidence_level
      and bucket_name = "''bucket''" and namespace_name = "''ns''"
      and object_name = "''part3/0000-photo.png''"] t c
  show ?thesis by blast
qed

section \<open>Rounding of percentages\<close>

text \<open>
  Rounding to the nearest binary64 moves a value below \<open>2 ^ 49\<close> by at most \<open>1 / 32\<close>, which is
  less than half of a tenth: the decimal a float was rounded to is found again when the float
  is rounded a second time.
\<close>

lemma round_half_even_error: "\<bar>of_int (round_half_even z) - z\<bar> \<le> 1 / 2"
proof -
  have "of_int \<lfloor>z\<rfloor> \<le> z" "z < of_int \<lfloor>z\<rfloor> + 1" by linarith+
  then show ?thesis
    by (auto simp: round_half_even_def Let_def)
qed

lemma round_half_even_unique:
  assumes "\<bar>z - of_int k\<bar> < 1 / 2"
  shows "round_half_even z = k"
proof -
  have "\<bar>of_int (round_half_even z) - z\<bar> \<le> 1 / 2" by (rule round_half_even_error)
  with assms have "\<bar>(of_int (round_half_even z) :: rat) - of_int k\<bar> < 1" by linarith
  then have "\<bar>(of_int (round_half_even z - k) :: rat)\<bar> < 1" by simp
  then have "\<bar>round_half_even z - k\<bar> < 1"
    by (metis of_int_abs of_int_less_1_iff)
  then show ?thesis by linarith
qed

lemma pow2_pos: "0 < pow2 e"
  by (simp add: pow2_def)

lemma pow2_eq: "pow2 e = power_int 2 e"
  by (simp add: pow2_def power_int_def power_one_over inverse_eq_divide)

lemma pow2_mono: "a \<le> b \<Longrightarrow> pow2 a \<le> pow2 b"
  unfolding pow2_eq by (rule power_int_increasing) simp_all

lemma pow2_strict: "pow2 a < pow2 b \<Longrightarrow> a < b"
  using pow2_mono [of b a] by (cases "a < b") auto

lemma ilog2_lower:
  assumes "0 < q"
  shows "pow2 (ilog2 q) \<le> q"
proof -
  obtain a b where ab: "quotient_of q = (a, b)" by (cases "quotient_of q")
  then have b: "0 < b" and q: "q = of_int a / of_int b"
    using quotient_of_denom_pos quotient_of_div by blast+
  with assms have a: "0 < a"
    by (simp add: zero_less_divide_iff)
  define d where "d = bitlen a - bitlen b"
  show ?thesis
  proof (cases "pow2 d \<le> q")
    case True
    then show ?thesis by (simp add: ilog2_def ab d_def Let_def)
  next
    case False
    then have e: "ilog2 q = d - 1" by (simp add: ilog2_def ab d_def Let_def)
    from bitlen_bounds [OF a] have la: "2 ^ nat (bitlen a - 1) \<le> a" by simp
    from bitlen_bounds [OF b] have lb: "b < 2 ^ nat (bitlen b)" by simp
    have la1: "1 \<le> bitlen a" using a by (simp add: bitlen_alt_def)
    have lb0: "0 \<le> bitlen b" by (rule bitlen_nonneg)
    have A: "power_int 2 (bitlen a - 1) \<le> (of_int a :: rat)"
    proof -
      have "(of_int (2 ^ nat (bitlen a - 1)) :: rat) \<le> of_int a" using la by (simp only: of_int_le_iff)
      then show ?thesis using la1 by (simp add: power_int_def)
    qed
    have B: "(of_int b :: rat) \<le> power_int 2 (bitlen b)"
    proof -
      have "(of_int b :: rat) < of_int (2 ^ nat (bitlen b))" using lb by (simp only: of_int_less_iff)
      then show ?thesis using lb0 by (simp add: power_int_def)
    qed
    have "pow2 (d - 1) = power_int 2 (bitlen a - 1) / power_int 2 (bitlen b)"
      unfolding pow2_eq d_def by (simp add: power_int_diff)
    also have "\<dots> \<le> of_int a / power_int 2 (bitlen b)"
      using A by (simp add: divide_right_mono)
    also have "\<dots> \<le> of_int a / of_int b"
      using B a b by (simp add: frac_le)
    finally show ?thesis using e q by simp
  qed
qed

lemma fl_error:
  assumes "\<bar>q\<bar> < 2 ^ 49"
  shows "\<bar>fl q - q\<bar> \<le> 1 / 32"
proof (cases "q = 0")
  case True
  then show ?thesis by (simp add: fl_def)
next
  case False
  define e where "e = max (ilog2 \<bar>q\<bar>) (- 1022)"
  define u where "u = pow2 (e - 52)"
  have u0: "0 < u" by (simp add: u_def pow2_pos)
  have "pow2 (ilog2 \<bar>q\<bar>) \<le> \<bar>q\<bar>" using False by (intro ilog2_lower) simp
  also have "\<bar>q\<bar> < pow2 49" using assms by (simp add: pow2_def)
  finally have "ilog2 \<bar>q\<bar> < 49" by (rule pow2_strict)
  then have "e - 52 \<le> - 4" by (simp add: e_def)
  then have "u \<le> pow2 (- 4)" unfolding u_def by (rule pow2_mono)
  then have u16: "u \<le> 1 / 16" by (simp add: pow2_def)
  have fl: "fl q = of_int (round_half_even (q / u)) * u"
    using False by (simp add: fl_def e_def u_def Let_def)
  have "fl q - q = (of_int (round_half_even (q / u)) - q / u) * u"
    using u0 by (simp add: fl algebra_simps)
  then have "\<bar>fl q - q\<bar> = \<bar>of_int (round_half_even (q / u)) - q / u\<bar> * u"
    using u0 by (simp add: abs_mult)
  also have "\<dots> \<le> (1 / 2) * u"
    using round_half_even_error [of "q / u"] u0 by (intro mult_right_mono) simp_all
  also have "\<dots> \<le> 1 / 32" using u16 by simp
  finally show ?thesis .
qed

lemma float_round_idem:
  assumes "\<bar>x\<bar> \<le> 2 ^ 48"
  shows "float_round (float_round x 1) 1 = float_round x 1"
proof -
  define k where "k = round_half_even (x * 10)"
  define q :: rat where "q = of_int k / 10"
  have y: "float_round x 1 = fl q" by (simp add: float_round_def k_def q_def)
  have "\<bar>of_int k - x * 10\<bar> \<le> 1 / 2" unfolding k_def by (rule round_half_even_error)
  then have "\<bar>q - x\<bar> \<le> 1 / 20" by (simp add: q_def abs_if split: if_splits)
  with assms have "\<bar>q\<bar> < 2 ^ 49" by (simp add: abs_if split: if_splits)
  then have "\<bar>fl q - q\<bar> \<le> 1 / 32" by (rule fl_error)
  then have "\<bar>fl q * 10 - of_int k\<bar> < 1 / 2" by (simp add: q_def abs_if split: if_splits)
  then have k: "round_half_even (fl q * 10) = k" by (rule round_half_even_unique)
  have "float_round (fl q) 1 = fl (of_int (round_half_even (fl q * 10)) / 10)"
    by (simp add: float_round_def)
  also have "\<dots> = fl (of_int k / 10)" by (simp only: k)
  also have "\<dots> = fl q" by (simp only: q_def)
  finally show ?thesis unfolding y .
qed


lemma fl_100: "fl 100 = 100"
  by code_simp

lemma percentage_bound:
  assumes "\<bar>f\<bar> \<le> 2 ^ 40"
  shows "\<bar>fl (fl f * fl 100)\<bar> \<le> 2 ^ 48"
proof -
  from assms have "\<bar>f\<bar> < 2 ^ 49" by simp
  then have a: "\<bar>fl f - f\<bar> \<le> 1 / 32" by (rule fl_error)
  with assms have b: "\<bar>fl f\<bar> \<le> 2 ^ 40 + 1 / 32" by (simp add: abs_if split: if_splits)
  then have c: "\<bar>fl f * 100\<bar> \<le> 100 * 2 ^ 40 + 100 / 32" by (simp add: abs_if split: if_splits)
  then have "\<bar>fl f * 100\<bar> < 2 ^ 49" by simp
  then have "\<bar>fl (fl f * 100) - fl f * 100\<bar> \<le> 1 / 32" by (rule fl_error)
  with c show ?thesis unfolding fl_100 by (simp add: abs_if split: if_splits)
qed

lemma py_round_idem:
  assumes "\<bar>num_val p\<bar> \<le> 2 ^ 48"
  shows "py_round (py_round p 1) 1 = py_round p 1"
proof (cases p)
  case (PyInt i)
  then show ?thesis by simp
next
  case (PyFloat f)
  with assms have "\<bar>f\<bar> \<le> 2 ^ 48" by simp
  from float_round_idem [OF this] show ?thesis using PyFloat by simp
qed

lemma word_entry_percentage:
  assumes "word_entry_of w = Inr e"
    and "\<bar>num_val (dict_get (word_confidence w) (PyInt 0))\<bar> \<le> 2 ^ 40"
  shows "entry_confidence e =
           py_round (py_mul (dict_get (word_confidence w) (PyInt 0)) (PyInt 100)) 1
       \<and> py_round (entry_confidence e) 1 = entry_confidence e"
proof
  show conf: "entry_confidence e =
           py_round (py_mul (dict_get (word_confidence w) (PyInt 0)) (PyInt 100)) 1"
    using assms(1) by (rule word_entry_of_confidence)
  have "\<bar>num_val (py_mul (dict_get (word_confidence w) (PyInt 0)) (PyInt 100))\<bar> \<le> 2 ^ 48"
  proof (cases "dict_get (word_confidence w) (PyInt 0)")
    case (PyInt i)
    with assms(2) have "\<bar>(of_int i :: rat)\<bar> \<le> 2 ^ 40" by simp
    then have "\<bar>(of_int i :: rat) * 100\<bar> \<le> 2 ^ 48" by (simp add: abs_if split: if_splits)
    then show ?thesis using PyInt by simp
  next
    case (PyFloat f)
    with assms(2) have "\<bar>f\<bar> \<le> 2 ^ 40" by simp
    from percentage_bound [OF this] show ?thesis using PyFloat by simp
  qed
  then show "py_round (entry_confidence e) 1 = entry_confidence e"
    unfolding conf by (rule py_round_idem)
qed

text \<open>
  C7. For each word, the report data hold as its percentage the confidence times 100 rounded
  to one decimal, and rounding that percentage again leaves it as it is. The confidence
  0.8234 gives 82.3, and rounding 82.3 gives 82.3. (Confidences lie in [0, 1]; the bound asked
  for here is far beyond that.)
\<close>

theorem percentage_rounding_idempotent:
  assumes "generate_doc_gen_data_content_from_ai_response r bucket_name namespace_name object_name
             = Inr c"
    and "i < length (response_words r)"
    and "\<bar>num_val (dict_get (word_confidence (response_words r ! i)) (PyInt 0))\<bar> \<le> 2 ^ 40"
  shows "length (data_words c) = length (response_words r)
       \<and> entry_confidence (data_words c ! i) =
           py_round (py_mul (dict_get (word_confidence (response_words r ! i)) (PyInt 0))
                            (PyInt 100)) 1
       \<and> py_round (entry_confidence (data_words c ! i)) 1 = entry_confidence (data_words c ! i)"
proof -
  from assms(1) have es: "word_entries (response_words r) = Inr (data_words c)"
    by (auto simp: generate_doc_gen_data_content_from_ai_response_def split: sum.splits)
  from word_entries_nth [OF es] assms(2)
  have len: "length (data_words c) = length (response_words r)"
    and e: "word_entry_of (response_words r ! i) = Inr (data_words c ! i)" by simp_all
  from word_entry_percentage [OF e assms(3)] len show ?thesis by blast
qed

theorem percentage_rounding_idempotent_witness:
  "\<exists>c. generate_doc_gen_data_content_from_ai_response
          (demo_detection [Some (PyFloat (fl (8234 / 10000)))]) ''bucket'' ''ns''
          ''part3/0000-photo.png'' = Inr c
      \<and> length (data_words c) = 1
      \<and> entry_confidence (data_words c ! 0) = PyFloat (fl (823 / 10))
      \<and> py_round (PyFloat (fl (823 / 10))) 1 = PyFloat (fl (823 / 10))"
proof -
  define r where "r = demo_detection [Some (PyFloat (fl (8234 / 10000)))]"
  have ws: "response_words r = [demo_word ''word'' (Some (PyFloat (fl (8234 / 10000))))]"
    by (simp add: r_def demo_detection_def response_words_def dict_get_def)
  have cf: "dict_get (word_confidence (response_words r ! 0)) (PyInt 0) =
              PyFloat (fl (8234 / 10000))"
    unfolding ws by (simp add: demo_word_def dict_get_def)
  have "\<exists>c. generate_doc_gen_data_content_from_ai_response r ''bucket'' ''ns''
          ''part3/0000-photo.png'' = Inr c"
    unfolding generate_doc_gen_data_content_from_ai_response_def ws
    by (simp add: demo_word_def word_entry_of_def word_vertices_def dict_get_def list_index_def)
  then obtain c where h1: "generate_doc_gen_data_content_from_ai_response r ''bucket'' ''ns''
          ''part3/0000-photo.png'' = Inr c" by blast
  have h2: "0 < length (response_words r)" unfolding ws by simp
  have "\<bar>fl (8234 / 10000)\<bar> \<le> 2 ^ 40" by code_simp
  then have h3: "\<bar>num_val (dict_get (word_confidence (response_words r ! 0)) (PyInt 0))\<bar>
                  \<le> 2 ^ 40"
    unfolding cf by simp
  have v: "py_round (py_mul (PyFloat (fl (8234 / 10000))) (PyInt 100)) 1 = PyFloat (fl (823 / 10))"
    by code_simp
  note t = percentage_rounding_idempotent [OF h1 h2 h3, unfolded cf v]
  from t have t1: "length (data_words c) = 1" unfolding ws by simp
  from t have t2: "entry_confidence (data_words c ! 0) = PyFloat (fl (823 / 10))" by blast
  from t have "py_round (entry_confidence (data_words c ! 0)) 1 = entry_confidence (data_words c ! 0)"
    by blast
  then have t3: "py_round (PyFloat (fl (823 / 10))) 1 = PyFloat (fl (823 / 10))"
    unfolding t2 .
  from h1 t1 t2 t3 show ?thesis unfolding r_def by blast
qed

section \<open>The handler\<close>

lemmas handler_stage_defs =
  create_object_storage_client_def get_image_data_from_url_def get_data_from_url_def
  put_file_to_object_storage_image_def generate_error_response_def reraise_def
  prepare_response_def

lemma content_type_cases:
  "get_image_content_type w f = Some ct \<Longrightarrow> ct = ''image/jpeg'' \<or> ct = ''image/png''"
  by (auto simp: get_image_content_type_def Let_def split: if_splits)

lemma demo_file_name: "last_segment ''http://host/photo.png'' = ''photo.png''"
  by (simp add: last_segment_def)

lemma demo_png_type: "get_image_content_type (demo_world s d f) ''photo.png'' = Some ''image/png''"
proof -
  have "mimetypes_guess_type builtin_types_map ''photo.png'' = Some ''image/png''"
    by code_simp
  then show ?thesis
    by (simp add: get_image_content_type_def demo_world_def)
qed


text \<open>
  C1. Without input data the handler logs the error "No data provided" and answers with
  \<open>prepare_response(ctx, message)\<close>: the status code is the default 200 and the body is the
  JSON string "No data provided", where every other failure goes through
  \<open>generate_error_response\<close> (400, an object with the entry "message").
\<close>

theorem handler_no_data:
  "handler w None =
     ([Log ''ERROR'' ''No data provided''],
      Inr \<lparr> status_code = 200, response_data = JString ''No data provided'',
            headers = [(''Content-Type'', ''application/json'')] \<rparr>)"
  by (simp add: handler_def prepare_response_def)

text \<open>
  The document generator's answer is checked in two layers only when the invocation's own
  status is 200: then an application code other than 200 ends the run with 400, before any
  PAR is created.
\<close>

lemma docgen_application_failure:
  assumes "fn_status_code resp = 200" and "fn_content resp = JsonObject code"
    and "code \<noteq> Some 200"
    and "generate_doc_gen_data_content_from_ai_response r b n obj = Inr content"
    and "invoke_function w fn_ocid
           (prepare_document_generator_payload w content n b obj fontfile_name template_name) =
         Inr resp"
  shows "report_stage w tr url n b obj r =
           (tr @ [GenerateDocGenData obj, InvokeFunction fn_ocid,
                  Log ''ERROR'' (''Document generation failure: '' @ sq @ str_code code @ sq
                                 @ ''. See Application Log'')],
            Inr \<lparr> status_code = 400,
                  response_data = JObject [(''message'',
                    JString (''Document generation failure: '' @ sq @ str_code code @ sq
                             @ ''. See Application Log''))],
                  headers = [(''Content-Type'', ''application/json'')] \<rparr>)"
  using assms by (simp add: report_stage_def handler_stage_defs Let_def)

text \<open>
  C2. When the invocation's own status is not 200 the handler has no branch for it: the run
  goes on to the PAR creation. Here the document generator answers 500, the PAR is created
  all the same and the handler answers 200 with the link.
\<close>

theorem docgen_transport_failure:
  "handler (demo_world 200 (Inr (demo_detection [Some (PyFloat (fl (5 / 10)))]))
              \<lparr> fn_status_code = 500, fn_content = JsonObject None \<rparr>)
           (Some (UrlPayload ''http://host/photo.png'')) =
     ([CreateObjectStorageClient, RequestsGet ''http://host/photo.png'',
       PutObject ''idsvv7k2bdum'' ''fun_oci_functions_bucket'' ''part3/0000-photo.png'',
       DetectText ''idsvv7k2bdum'' ''fun_oci_functions_bucket'' ''part3/0000-photo.png'',
       GenerateDocGenData ''part3/0000-photo.png'',
       InvokeFunction ''ocid1.fnfunc.oc1.iad..zzz'',
       CreatePar ''idsvv7k2bdum'' ''fun_oci_functions_bucket'' ''part3/0000-photo.png.pdf''],
      Inr \<lparr> status_code = 200,
            response_data = JObject [(''inputUrl'', JString ''http://host/photo.png''),
                                     (''reportWithAnomalies'', JString ''https://par/report'')],
            headers = [(''Content-Type'', ''application/json'')] \<rparr>)"
  by code_simp

text \<open>
  C4. When the client is created, the fetch answers 200 with a recognised image type, the
  upload answers 200, the detection returns and the evaluator finds every word clear, the
  handler answers 204 with the message "All Words are clear in Image: ...", having called the
  fetch, the upload and the detection only: the report data builder, the document generator
  and the PAR creation are not called.
\<close>

theorem clear_image_ends_with_204:
  assumes "create_object_storage_client w = Inr ()"
    and "requests_get w url = Inr (200, content)"
    and "get_image_content_type w (last_segment url) = Some ct"
    and "put_object w ''idsvv7k2bdum'' ''fun_oci_functions_bucket''
           (''part3/'' @ uuid4 w @ ''-'' @ last_segment url) content (Some ct) = Inr 200"
    and "detect_text_from_oject_storage_image w compartment_id ''idsvv7k2bdum''
           ''fun_oci_functions_bucket'' (''part3/'' @ uuid4 w @ ''-'' @ last_segment url) = Inr r"
    and "all_texts_are_clear_in_the_image r default_confidence_level"
  shows "handler w (Some (UrlPayload url)) =
           ([CreateObjectStorageClient, RequestsGet url,
             PutObject ''idsvv7k2bdum'' ''fun_oci_functions_bucket''
               (''part3/'' @ uuid4 w @ ''-'' @ last_segment url),
             DetectText ''idsvv7k2bdum'' ''fun_oci_functions_bucket''
               (''part3/'' @ uuid4 w @ ''-'' @ last_segment url)],
            Inr \<lparr> status_code = 204,
                  response_data = JObject [(''message'',
                    JString (''All Words are clear in Image: '' @ dq
                      @ ''part3/'' @ uuid4 w @ ''-'' @ last_segment url @ dq
                      @ '' from Bucket: '' @ dq @ ''fun_oci_functions_bucket'' @ dq
                      @ '' in Namespace: '' @ dq @ ''idsvv7k2bdum'' @ dq))],
                  headers = [(''Content-Type'', ''application/json'')] \<rparr>)
       \<and> \<not> list_ex is_report_build (fst (handler w (Some (UrlPayload url))))
       \<and> \<not> list_ex is_report_invocation (fst (handler w (Some (UrlPayload url))))
       \<and> \<not> list_ex is_par_creation (fst (handler w (Some (UrlPayload url))))"
proof -
  from content_type_cases [OF assms(3)]
  have ct: "ct = ''image/jpeg'' \<or> ct = ''image/png''" .
  have run: "handler w (Some (UrlPayload url)) =
           ([CreateObjectStorageClient, RequestsGet url,
             PutObject ''idsvv7k2bdum'' ''fun_oci_functions_bucket''
               (''part3/'' @ uuid4 w @ ''-'' @ last_segment url),
             DetectText ''idsvv7k2bdum'' ''fun_oci_functions_bucket''
               (''part3/'' @ uuid4 w @ ''-'' @ last_segment url)],
            Inr \<lparr> status_code = 204,
                  response_data = JObject [(''message'',
                    JString (''All Words are clear in Image: '' @ dq
                      @ ''part3/'' @ uuid4 w @ ''-'' @ last_segment url @ dq
                      @ '' from Bucket: '' @ dq @ ''fun_oci_functions_bucket'' @ dq
                      @ '' in Namespace: '' @ dq @ ''idsvv7k2bdum'' @ dq))],
                  headers = [(''Content-Type'', ''application/json'')] \<rparr>)"
    using assms ct by (auto simp: handler_def handler_stage_defs Let_def)
  show ?thesis unfolding run by simp
qed

text \<open>
  C8. When the text detection raises, the handler builds no response: the exception is
  logged ("Error in handler: ...") and raised again, so the run ends with that exception.
\<close>

theorem detection_failure_is_reraised:
  assumes "create_object_storage_client w = Inr ()"
    and "requests_get w url = Inr (200, content)"
    and "get_image_content_type w (last_segment url) = Some ct"
    and "put_object w ''idsvv7k2bdum'' ''fun_oci_functions_bucket''
           (''part3/'' @ uuid4 w @ ''-'' @ last_segment url) content (Some ct) = Inr 200"
    and "detect_text_from_oject_storage_image w compartment_id ''idsvv7k2bdum''
           ''fun_oci_functions_bucket'' (''part3/'' @ uuid4 w @ ''-'' @ last_segment url) = Inl ex"
  shows "handler w (Some (UrlPayload url)) =
           ([CreateObjectStorageClient, RequestsGet url,
             PutObject ''idsvv7k2bdum'' ''fun_oci_functions_bucket''
               (''part3/'' @ uuid4 w @ ''-'' @ last_segment url),
             DetectText ''idsvv7k2bdum'' ''fun_oci_functions_bucket''
               (''part3/'' @ uuid4 w @ ''-'' @ last_segment url),
             Log ''INFO'' (''Error in handler: '' @ str_exn ex)],
            Inl ex)"
proof -
  from content_type_cases [OF assms(3)]
  have ct: "ct = ''image/jpeg'' \<or> ct = ''image/png''" .
  show ?thesis
    using assms ct by (auto simp: handler_def handler_stage_defs Let_def)
qed

text \<open>
  C6. When the fetch answers a status other than 200, the handler answers 400 with the message
  "Failed to retrieve the file from '<url>'. Status code: <status>", and the run holds no
  upload and no detection.
\<close>

theorem fetch_failure_ends_with_400:
  assumes "create_object_storage_client w = Inr ()"
    and "requests_get w url = Inr (status, content)"
    and "status \<noteq> 200"
  shows "handler w (Some (UrlPayload url)) =
           ([CreateObjectStorageClient, RequestsGet url,
             Log ''ERROR'' (''Failed to retrieve the file from '' @ sq @ url @ sq
                            @ ''. Status code: '' @ str_int status)],
            Inr \<lparr> status_code = 400,
                  response_data = JObject [(''message'',
                    JString (''Failed to retrieve the file from '' @ sq @ url @ sq
                             @ ''. Status code: '' @ str_int status))],
                  headers = [(''Content-Type'', ''application/json'')] \<rparr>)
       \<and> \<not> list_ex is_upload (fst (handler w (Some (UrlPayload url))))
       \<and> \<not> list_ex is_detection (fst (handler w (Some (UrlPayload url))))"
  using assms by (simp add: handler_def handler_stage_defs Let_def)

theorem clear_image_ends_with_204_witness:
  "handler (demo_world 200
              (Inr (demo_detection [Some (PyFloat (fl (95 / 100))), Some (PyFloat (fl (91 / 100)))]))
              \<lparr> fn_status_code = 200, fn_content = JsonObject (Some 200) \<rparr>)
           (Some (UrlPayload ''http://host/photo.png'')) =
     ([CreateObjectStorageClient, RequestsGet ''http://host/photo.png'',
       PutObject ''idsvv7k2bdum'' ''fun_oci_functions_bucket'' ''part3/0000-photo.png'',
       DetectText ''idsvv7k2bdum'' ''fun_oci_functions_bucket'' ''part3/0000-photo.png''],
      Inr \<lparr> status_code = 204,
            response_data = JObject [(''message'',
              JString (''All Words are clear in Image: '' @ dq @ ''part3/0000-photo.png'' @ dq
                @ '' from Bucket: '' @ dq @ ''fun_oci_functions_bucket'' @ dq
                @ '' in Namespace: '' @ dq @ ''idsvv7k2bdum'' @ dq))],
            headers = [(''Content-Type'', ''application/json'')] \<rparr>)"
proof -
  define w where "w = demo_world 200
              (Inr (demo_detection [Some (PyFloat (fl (95 / 100))), Some (PyFloat (fl (91 / 100)))]))
              \<lparr> fn_status_code = 200, fn_content = JsonObject (Some 200) \<rparr>"
  have h1: "create_object_storage_client w = Inr ()"
    by (simp add: w_def demo_world_def create_object_storage_client_def)
  have h2: "requests_get w ''http://host/photo.png'' = Inr (200, ''bytes'')"
    by (simp add: w_def demo_world_def)
  have h3: "get_image_content_type w (last_segment ''http://host/photo.png'') = Some ''image/png''"
    unfolding demo_file_name w_def by (rule demo_png_type)
  have u: "uuid4 w = ''0000''" by (simp add: w_def demo_world_def)
  have h4: "put_object w ''idsvv7k2bdum'' ''fun_oci_functions_bucket''
           (''part3/'' @ uuid4 w @ ''-'' @ last_segment ''http://host/photo.png'') ''bytes''
           (Some ''image/png'') = Inr 200"
    by (simp add: w_def demo_world_def)
  have h5: "detect_text_from_oject_storage_image w compartment_id ''idsvv7k2bdum''
           ''fun_oci_functions_bucket''
           (''part3/'' @ uuid4 w @ ''-'' @ last_segment ''http://host/photo.png'') =
           Inr (demo_detection [Some (PyFloat (fl (95 / 100))), Some (PyFloat (fl (91 / 100)))])"
    by (simp add: w_def demo_world_def)
  have h6: "all_texts_are_clear_in_the_image
              (demo_detection [Some (PyFloat (fl (95 / 100))), Some (PyFloat (fl (91 / 100)))])
              default_confidence_level"
    by code_simp
  note run = clear_image_ends_with_204 [OF h1 h2 h3 h4 h5 h6, unfolded u demo_file_name]
  show ?thesis using run unfolding w_def by simp
qed

theorem detection_failure_is_reraised_witness:
  "handler (demo_world 200 (Inl (PyExn ''ServiceError'' ''text detection failed''))
              \<lparr> fn_status_code = 200, fn_content = JsonObject (Some 200) \<rparr>)
           (Some (UrlPayload ''http://host/photo.png'')) =
     ([CreateObjectStorageClient, RequestsGet ''http://host/photo.png'',
       PutObject ''idsvv7k2bdum'' ''fun_oci_functions_bucket'' ''part3/0000-photo.png'',
       DetectText ''idsvv7k2bdum'' ''fun_oci_functions_bucket'' ''part3/0000-photo.png'',
       Log ''INFO'' ''Error in handler: text detection failed''],
      Inl (PyExn ''ServiceError'' ''text detection failed''))"
proof -
  define w where "w = demo_world 200 (Inl (PyExn ''ServiceError'' ''text detection failed''))
              \<lparr> fn_status_code = 200, fn_content = JsonObject (Some 200) \<rparr>"
  have h1: "create_object_storage_client w = Inr ()"
    by (simp add: w_def demo_world_def create_object_storage_client_def)
  have h2: "requests_get w ''http://host/photo.png'' = Inr (200, ''bytes'')"
    by (simp add: w_def demo_world_def)
  have h3: "get_image_content_type w (last_segment ''http://host/photo.png'') = Some ''image/png''"
    unfolding demo_file_name w_def by (rule demo_png_type)
  have u: "uuid4 w = ''0000''" by (simp add: w_def demo_world_def)
  have h4: "put_object w ''idsvv7k2bdum'' ''fun_oci_functions_bucket''
           (''part3/'' @ uuid4 w @ ''-'' @ last_segment ''http://host/photo.png'') ''bytes''
           (Some ''image/png'') = Inr 200"
    by (simp add: w_def demo_world_def)
  have h5: "detect_text_from_oject_storage_image w compartment_id ''idsvv7k2bdum''
           ''fun_oci_functions_bucket''
           (''part3/'' @ uuid4 w @ ''-'' @ last_segment ''http://host/photo.png'') =
           Inl (PyExn ''ServiceError'' ''text detection failed'')"
    by (simp add: w_def demo_world_def)
  note run = detection_failure_is_reraised [OF h1 h2 h3 h4 h5, unfolded u demo_file_name]
  show ?thesis using run unfolding w_def by simp
qed

theorem fetch_failure_ends_with_400_witness:
  "handler (demo_world 404 (Inr (demo_detection []))
              \<lparr> fn_status_code = 200, fn_content = JsonObject (Some 200) \<rparr>)
           (Some (UrlPayload ''http://host/photo.png'')) =
     ([CreateObjectStorageClient, RequestsGet ''http://host/photo.png'',
       Log ''ERROR'' (''Failed to retrieve the file from '' @ sq @ ''http://host/photo.png'' @ sq
                      @ ''. Status code: 404'')],
      Inr \<lparr> status_code = 400,
            response_data = JObject [(''message'',
              JString (''Failed to retrieve the file from '' @ sq @ ''http://host/photo.png'' @ sq
                       @ ''. Status code: 404''))],
            headers = [(''Content-Type'', ''application/json'')] \<rparr>)"
proof -
  define w where "w = demo_world 404 (Inr (demo_detection []))
              \<lparr> fn_status_code = 200, fn_content = JsonObject (Some 200) \<rparr>"
  have h1: "create_object_storage_client w = Inr ()"
    by (simp add: w_def demo_world_def create_object_storage_client_def)
  have h2: "requests_get w ''http://host/photo.png'' = Inr (404, ''bytes'')"
    by (simp add: w_def demo_world_def)
  have h3: "(404::int) \<noteq> 200" by simp
  have s: "str_int 404 = ''404''" by code_simp
  from fetch_failure_ends_with_400 [OF h1 h2 h3]
  show ?thesis unfolding s w_def by simp
qed


section \<open>The content type of a file name\<close>









lemma content_type_examples:
  "get_image_content_type (demo_world s d f) ''photo.png'' = Some ''image/png''
   \<and> get_image_content_type (demo_world s d f) ''photo.jpg'' = Some ''image/jpeg''
   \<and> get_image_content_type (demo_world s d f) ''photo.gif'' = None
   \<and> get_image_content_type (demo_world s d f) ''photo'' = None"
proof -
  have "mimetypes_guess_type builtin_types_map ''photo.png'' = Some ''image/png''"
    and "mimetypes_guess_type builtin_types_map ''photo.jpg'' = Some ''image/jpeg''"
    and "mimetypes_guess_type builtin_types_map ''photo.gif'' = Some ''image/gif''"
    and "mimetypes_guess_type builtin_types_map ''photo'' = None"
    by code_simp+
  then show ?thesis
    by (simp add: get_image_content_type_def demo_world_def)
qed

end
